theory Spec2Isabelle
  imports Main "HOL-Library.FSet" "HOL-Library.Word"
begin

section \<open>Values, keys and exceptions\<close>

text \<open>
  The decorators of \<^verbatim>\<open>cacheplus/value.py\<close> cache the return value of a callable in a
  storage object, pickled. Python values are modelled by the small universe below;
  \<open>PObject c i\<close> is an instance of a user class named \<open>c\<close>.
\<close>

type_synonym bytes = "8 word list"

datatype pyval =
    PNone
  | PBool bool
  | PInt int
  | PStr string
  | PBytes bytes
  | PTuple "pyval list"
  | PObject string nat

text \<open>\<^verbatim>\<open>type(v).__name__\<close>\<close>

fun type_name :: "pyval \<Rightarrow> string" where
  "type_name PNone = ''NoneType''"
| "type_name (PBool _) = ''bool''"
| "type_name (PInt _) = ''int''"
| "type_name (PStr _) = ''str''"
| "type_name (PBytes _) = ''bytes''"
| "type_name (PTuple _) = ''tuple''"
| "type_name (PObject c _) = c"

text \<open>
  A function is referred to by its defining module and qualified name; the function key
  of \<^verbatim>\<open>make_function_key\<close> is built from the same two strings.
\<close>

type_synonym function_key = "string \<times> string"

text \<open>
  The value key: the function key, the representations of the positional arguments in
  order, and those of the keyword arguments as a set indexed by name.
\<close>

datatype key = CallKey function_key "bytes list" "(string \<times> bytes) fset"

text \<open>
  The three messages of \<^verbatim>\<open>CacheError\<close> in the source are f-strings around the key:
  \<^item> \<open>ErrGetting key\<close>: \<^verbatim>\<open>An error occurred while getting {key} from storage\<close>
  \<^item> \<open>ErrUnpickle key\<close>: \<^verbatim>\<open>Failed to unpickle {key}\<close>
  \<^item> \<open>ErrSaving key\<close>: \<^verbatim>\<open>An error occurred while saving {key} to storage\<close>
\<close>

datatype message = ErrGetting key | ErrUnpickle key | ErrSaving key

text \<open>
  Exceptions: the instances of \<^verbatim>\<open>Exception\<close> that the handlers of the source tell apart.
  \<open>OtherException n\<close> is an instance of a class named \<open>n\<close> that derives from
  \<^verbatim>\<open>Exception\<close> and from none of the classes named here (\<^verbatim>\<open>EOFError\<close>,
  \<^verbatim>\<open>AttributeError\<close>, \<^verbatim>\<open>ValueError\<close>, ...). The last argument of \<open>CacheError\<close> and of
  \<open>UnserializableReturnValueError\<close> is \<^verbatim>\<open>__cause__\<close>, set by \<^verbatim>\<open>raise ... from e\<close>.
\<close>

datatype pyexc =
    ImproperlyConfiguredException
  | UnpicklingError
  | PicklingError
  | TypeError string
  | UnhashableParamError "string option" string
  | OtherException string
  | CacheError message pyexc
  | UnserializableReturnValueError function_key pyval pyexc

text \<open>What each \<^verbatim>\<open>except\<close> clause of the source catches.\<close>

fun is_ImproperlyConfiguredException :: "pyexc \<Rightarrow> bool" where
  "is_ImproperlyConfiguredException ImproperlyConfiguredException = True"
| "is_ImproperlyConfiguredException _ = False"

fun is_UnpicklingError :: "pyexc \<Rightarrow> bool" where
  "is_UnpicklingError UnpicklingError = True"
| "is_UnpicklingError _ = False"

fun is_TypeError_or_PicklingError :: "pyexc \<Rightarrow> bool" where
  "is_TypeError_or_PicklingError (TypeError _) = True"
| "is_TypeError_or_PicklingError PicklingError = True"
| "is_TypeError_or_PicklingError _ = False"

section \<open>Configuration, collaborators and state\<close>

text \<open>\<^verbatim>\<open>expires_in: int | timedelta | None\<close>; a \<^verbatim>\<open>timedelta\<close> is counted in microseconds.\<close>

datatype expires = Seconds int | Timedelta int

text \<open>
  The attributes that \<^verbatim>\<open>cache_value.__init__\<close> sets. \<open>factory\<close> is the outcome of calling
  \<^verbatim>\<open>self._factory\<close>, the storage factory wrapped in \<^verbatim>\<open>cache_reference\<close>: it raises, or it
  returns the one storage object of this factory. \<^verbatim>\<open>self._storage\<close> is mutable and lives
  in the state below.
\<close>

record cache_value =
  factory :: "pyexc + unit"
  type_encoders :: "(string \<rightharpoonup> (pyval \<Rightarrow> bytes)) option"
  expires_in :: "expires option"
  serialize :: bool

record async_cache_value = cache_value +
  is_async :: bool

text \<open>
  The decorated callable: its module and qualified name, the names of its positional
  parameters, whether \<^verbatim>\<open>inspect.iscoroutinefunction\<close> holds of it, and its body, which
  reads and writes a part \<open>'w\<close> of the state and returns or raises.
\<close>

record 'w func =
  func_module :: string
  func_qualname :: string
  params :: "string list"
  iscoroutinefunction :: bool
  body :: "pyval list \<Rightarrow> (string \<times> pyval) list \<Rightarrow> 'w \<Rightarrow> (pyexc + pyval) \<times> 'w"

text \<open>
  The collaborators that are not part of \<^verbatim>\<open>value.py\<close>: the hasher of argument values
  used by \<^verbatim>\<open>make_value_key\<close>, \<^verbatim>\<open>pickle.dumps\<close> and \<^verbatim>\<open>pickle.loads\<close>, and the two
  methods of the storage object, over the state \<open>'s\<close> of that object. \<open>storage_get\<close>
  returns \<open>None\<close> for an absent key.
\<close>

record 's env =
  natively_hashable :: "string \<Rightarrow> bool"
  native_repr :: "pyval \<Rightarrow> bytes"
  pickle_dumps :: "pyval \<Rightarrow> pyexc + bytes"
  pickle_loads :: "bytes \<Rightarrow> pyexc + pyval"
  storage_get :: "key \<Rightarrow> 's \<Rightarrow> (pyexc + bytes option) \<times> 's"
  storage_set :: "key \<Rightarrow> bytes \<Rightarrow> expires option \<Rightarrow> 's \<Rightarrow> (pyexc + unit) \<times> 's"

text \<open>What a call does to the outside, in the order it does it.\<close>

datatype event =
    FactoryCalled
  | LockAcquired
  | LockReleased
  | StorageGet key
  | StorageSet key bytes "expires option"
  | DebugCacheHit
  | DebugCacheMiss
  | FuncCalled "pyval list" "(string \<times> pyval) list"

text \<open>
  The state: the storage object, whether \<^verbatim>\<open>self._storage\<close> is bound, the part the wrapped
  function works on, and the events so far.
\<close>

record ('s, 'w) world =
  storage :: 's
  self_storage :: bool
  outside :: 'w
  trace :: "event list"

definition emit :: "event \<Rightarrow> ('s, 'w) world \<Rightarrow> ('s, 'w) world" where
  "emit ev w = w\<lparr>trace := trace w @ [ev]\<rparr>"

fun is_FuncCalled :: "event \<Rightarrow> bool" where
  "is_FuncCalled (FuncCalled _ _) = True"
| "is_FuncCalled _ = False"

fun is_StorageSet :: "event \<Rightarrow> bool" where
  "is_StorageSet (StorageSet _ _ _) = True"
| "is_StorageSet _ = False"

text \<open>How often the wrapped function has run, and how often \<^verbatim>\<open>storage.set\<close> was called.\<close>

definition executions :: "('s, 'w) world \<Rightarrow> nat" where
  "executions w = length (filter is_FuncCalled (trace w))"

definition writes :: "('s, 'w) world \<Rightarrow> nat" where
  "writes w = length (filter is_StorageSet (trace w))"

section \<open>Key derivation\<close>

text \<open>
  Modelled from the spec: \<^verbatim>\<open>make_function_key\<close> of \<^verbatim>\<open>cacheplus._core\<close>, which is not
  among the sources. The identity of a function is a deterministic token computed from
  its qualified name and defining scope.
\<close>

definition make_function_key :: "'w func \<Rightarrow> function_key" where
  "make_function_key func = (func_module func, func_qualname func)"

text \<open>
  Modelled from the spec: \<^verbatim>\<open>make_value_key\<close> of \<^verbatim>\<open>cacheplus._core\<close>, which is not among
  the sources. For each positional and then each keyword argument: when its runtime type
  is natively hashable, its native representation is taken; otherwise the type encoders
  are looked up by the exact type and the encoder applied; when there is none,
  \<^verbatim>\<open>UnhashableParamError\<close> names the parameter and the type. The key combines the function
  key, the positional representations in order and the keyword ones as a set.
\<close>

definition param_repr ::
  "'s env \<Rightarrow> (string \<rightharpoonup> (pyval \<Rightarrow> bytes)) option \<Rightarrow> string option \<Rightarrow> pyval \<Rightarrow> pyexc + bytes"
where
  "param_repr env encoders name v =
     (if natively_hashable env (type_name v) then Inr (native_repr env v)
      else case encoders of
             None \<Rightarrow> Inl (UnhashableParamError name (type_name v))
           | Some m \<Rightarrow>
               (case m (type_name v) of
                  None \<Rightarrow> Inl (UnhashableParamError name (type_name v))
                | Some encode \<Rightarrow> Inr (encode v)))"

fun param_reprs ::
  "'s env \<Rightarrow> (string \<rightharpoonup> (pyval \<Rightarrow> bytes)) option \<Rightarrow> (string option \<times> pyval) list
     \<Rightarrow> pyexc + bytes list"
where
  "param_reprs env encoders [] = Inr []"
| "param_reprs env encoders ((name, v) # rest) =
     (case param_repr env encoders name v of
        Inl e \<Rightarrow> Inl e
      | Inr b \<Rightarrow>
          (case param_reprs env encoders rest of
             Inl e \<Rightarrow> Inl e
           | Inr bs \<Rightarrow> Inr (b # bs)))"

definition positional_name :: "'w func \<Rightarrow> nat \<Rightarrow> string option" where
  "positional_name func i = (if i < length (params func) then Some (params func ! i) else None)"

definition arg_pairs ::
  "'w func \<Rightarrow> pyval list \<Rightarrow> (string \<times> pyval) list \<Rightarrow> (string option \<times> pyval) list"
where
  "arg_pairs func args kwargs =
     zip (map (positional_name func) [0 ..< length args]) args
       @ map (\<lambda>(name, v). (Some name, v)) kwargs"

definition make_value_key ::
  "'s env \<Rightarrow> function_key \<Rightarrow> 'w func \<Rightarrow> (string \<rightharpoonup> (pyval \<Rightarrow> bytes)) option
     \<Rightarrow> pyval list \<Rightarrow> (string \<times> pyval) list \<Rightarrow> pyexc + key"
where
  "make_value_key env function_key func encoders args kwargs =
     (case param_reprs env encoders (arg_pairs func args kwargs) of
        Inl e \<Rightarrow> Inl e
      | Inr bs \<Rightarrow>
          Inr (CallKey function_key (take (length args) bs)
                 (fset_of_list (zip (map fst kwargs) (drop (length args) bs)))))"

section \<open>The decorators\<close>

text \<open>
  The gate of a decorated function: \<^verbatim>\<open>_NullLock\<close>, whose enter and exit do nothing, or a
  real lock (\<^verbatim>\<open>threading.Lock\<close>, \<^verbatim>\<open>anyio.Lock\<close>). Calls are run one after the other
  here, so a real lock is free whenever a call starts; \<^verbatim>\<open>with lock:\<close> acquires it, runs
  the block and releases it on every way out of the block, a raise included.
\<close>

datatype lock = NullLock | ThreadingLock | AnyioLock

definition with_lock ::
  "lock \<Rightarrow> (('s, 'w) world \<Rightarrow> 'a \<times> ('s, 'w) world) \<Rightarrow> ('s, 'w) world \<Rightarrow> 'a \<times> ('s, 'w) world"
where
  "with_lock lock block w =
     (case lock of
        NullLock \<Rightarrow> block w
      | _ \<Rightarrow> (case block (emit LockAcquired w) of (r, w') \<Rightarrow> (r, emit LockReleased w')))"

definition func_ref :: "'w func \<Rightarrow> function_key" where
  "func_ref func = (func_module func, func_qualname func)"

subsection \<open>\<^verbatim>\<open>cache_value\<close>\<close>

text \<open>
  Lines 111 to 115 of \<^verbatim>\<open>wrapper\<close>: the storage is resolved through the factory when
  \<^verbatim>\<open>self._storage\<close> is \<^verbatim>\<open>None\<close>, and recorded.
\<close>

definition bind_storage ::
  "'m cache_value_scheme \<Rightarrow> ('s, 'w) world \<Rightarrow> (pyexc + unit) \<times> ('s, 'w) world"
where
  "bind_storage self w =
     (if \<not> self_storage w then
        (case factory self of
           Inl e \<Rightarrow> (Inl e, emit FactoryCalled w)
         | Inr _ \<Rightarrow> (Inr (), (emit FactoryCalled w)\<lparr>self_storage := True\<rparr>))
      else (Inr (), w))"

text \<open>Lines 118 to 150: the block under \<^verbatim>\<open>with lock:\<close>.\<close>

definition critical_section ::
  "'s env \<Rightarrow> 'm cache_value_scheme \<Rightarrow> 'w func \<Rightarrow> function_key
     \<Rightarrow> pyval list \<Rightarrow> (string \<times> pyval) list
     \<Rightarrow> ('s, 'w) world \<Rightarrow> (pyexc + pyval) \<times> ('s, 'w) world"
where
  "critical_section env self func function_key args kwargs w =
     (case make_value_key env function_key func (type_encoders self) args kwargs of
        Inl e \<Rightarrow> (Inl e, w)
      | Inr key \<Rightarrow>
          (case storage_get env key (storage w) of
             (Inl e, s) \<Rightarrow>
               (if is_ImproperlyConfiguredException e then Inl e
                else Inl (CacheError (ErrGetting key) e),
                emit (StorageGet key) (w\<lparr>storage := s\<rparr>))
           | (Inr (Some data), s) \<Rightarrow>
               (let w1 = emit DebugCacheHit (emit (StorageGet key) (w\<lparr>storage := s\<rparr>)) in
                case pickle_loads env data of
                  Inr v \<Rightarrow> (Inr v, w1)
                | Inl e \<Rightarrow>
                    (if is_UnpicklingError e then Inl (CacheError (ErrUnpickle key) e)
                     else Inl e,
                     w1))
           | (Inr None, s) \<Rightarrow>
               (let w1 = emit DebugCacheMiss (emit (StorageGet key) (w\<lparr>storage := s\<rparr>)) in
                case body func args kwargs (outside w1) of
                  (Inl e, out) \<Rightarrow> (Inl e, emit (FuncCalled args kwargs) (w1\<lparr>outside := out\<rparr>))
                | (Inr val, out) \<Rightarrow>
                    (let w2 = emit (FuncCalled args kwargs) (w1\<lparr>outside := out\<rparr>) in
                     case pickle_dumps env val of
                       Inl e \<Rightarrow>
                         (if is_TypeError_or_PicklingError e
                          then Inl (UnserializableReturnValueError (func_ref func) val e)
                          else Inl e,
                          w2)
                     | Inr data \<Rightarrow>
                         (case storage_set env key data (expires_in self) (storage w2) of
                            (Inl e, s') \<Rightarrow>
                              (Inl (CacheError (ErrSaving key) e),
                               emit (StorageSet key data (expires_in self)) (w2\<lparr>storage := s'\<rparr>))
                          | (Inr _, s') \<Rightarrow>
                              (Inr val,
                               emit (StorageSet key data (expires_in self))
                                 (w2\<lparr>storage := s'\<rparr>)))))))"

definition wrapper ::
  "'s env \<Rightarrow> 'm cache_value_scheme \<Rightarrow> 'w func \<Rightarrow> function_key \<Rightarrow> lock
     \<Rightarrow> pyval list \<Rightarrow> (string \<times> pyval) list
     \<Rightarrow> ('s, 'w) world \<Rightarrow> (pyexc + pyval) \<times> ('s, 'w) world"
where
  "wrapper env self func function_key lock args kwargs w =
     (case bind_storage self w of
        (Inl e, w1) \<Rightarrow> (Inl e, w1)
      | (Inr _, w1) \<Rightarrow>
          with_lock lock (critical_section env self func function_key args kwargs) w1)"

definition quote :: string where
  "quote = [CHR 0x27]"

text \<open>
  \<^verbatim>\<open>cache_value.__call__\<close>: the decoration. It refuses a coroutine function, computes the
  function key and chooses the lock once, and returns the wrapper closed over them.
\<close>

definition cache_value_call ::
  "'s env \<Rightarrow> cache_value \<Rightarrow> 'w func
     \<Rightarrow> pyexc + (pyval list \<Rightarrow> (string \<times> pyval) list
                  \<Rightarrow> ('s, 'w) world \<Rightarrow> (pyexc + pyval) \<times> ('s, 'w) world)"
where
  "cache_value_call env self func =
     (if iscoroutinefunction func then
        Inl (TypeError (quote @ ''cache_value'' @ quote
               @ '' cannot wrap a coroutine. If this is an asyncronous ''
               @ ''function/method, use '' @ quote @ ''async_cache_value'' @ quote))
      else
        (let function_key = make_function_key func;
             lock = (if serialize self then ThreadingLock else NullLock)
         in Inr (wrapper env self func function_key lock)))"

subsection \<open>\<^verbatim>\<open>async_cache_value\<close>\<close>

text \<open>
  The coroutine flavour. An \<^verbatim>\<open>await\<close> runs the awaited call to its end before the next
  statement, so with one call at a time it is a call. Lines 217 to 224:
\<close>

definition async_bind_storage ::
  "async_cache_value \<Rightarrow> ('s, 'w) world \<Rightarrow> (pyexc + unit) \<times> ('s, 'w) world"
where
  "async_bind_storage self w =
     (if \<not> self_storage w then
        (case (if is_async self then factory self else factory self) of
           Inl e \<Rightarrow> (Inl e, emit FactoryCalled w)
         | Inr _ \<Rightarrow> (Inr (), (emit FactoryCalled w)\<lparr>self_storage := True\<rparr>))
      else (Inr (), w))"

text \<open>Lines 227 to 259: the block under \<^verbatim>\<open>async with lock:\<close>.\<close>

definition async_critical_section ::
  "'s env \<Rightarrow> async_cache_value \<Rightarrow> 'w func \<Rightarrow> function_key
     \<Rightarrow> pyval list \<Rightarrow> (string \<times> pyval) list
     \<Rightarrow> ('s, 'w) world \<Rightarrow> (pyexc + pyval) \<times> ('s, 'w) world"
where
  "async_critical_section env self func function_key args kwargs w =
     (case make_value_key env function_key func (type_encoders self) args kwargs of
        Inl e \<Rightarrow> (Inl e, w)
      | Inr key \<Rightarrow>
          (case storage_get env key (storage w) of
             (Inl e, s) \<Rightarrow>
               (if is_ImproperlyConfiguredException e then Inl e
                else Inl (CacheError (ErrGetting key) e),
                emit (StorageGet key) (w\<lparr>storage := s\<rparr>))
           | (Inr (Some data), s) \<Rightarrow>
               (let w1 = emit DebugCacheHit (emit (StorageGet key) (w\<lparr>storage := s\<rparr>)) in
                case pickle_loads env data of
                  Inr v \<Rightarrow> (Inr v, w1)
                | Inl e \<Rightarrow>
                    (if is_UnpicklingError e then Inl (CacheError (ErrUnpickle key) e)
                     else Inl e,
                     w1))
           | (Inr None, s) \<Rightarrow>
               (let w1 = emit DebugCacheMiss (emit (StorageGet key) (w\<lparr>storage := s\<rparr>)) in
                case body func args kwargs (outside w1) of
                  (Inl e, out) \<Rightarrow> (Inl e, emit (FuncCalled args kwargs) (w1\<lparr>outside := out\<rparr>))
                | (Inr val, out) \<Rightarrow>
                    (let w2 = emit (FuncCalled args kwargs) (w1\<lparr>outside := out\<rparr>) in
                     case pickle_dumps env val of
                       Inl e \<Rightarrow>
                         (if is_TypeError_or_PicklingError e
                          then Inl (UnserializableReturnValueError (func_ref func) val e)
                          else Inl e,
                          w2)
                     | Inr data \<Rightarrow>
                         (case storage_set env key data (expires_in self) (storage w2) of
                            (Inl e, s') \<Rightarrow>
                              (Inl (CacheError (ErrSaving key) e),
                               emit (StorageSet key data (expires_in self)) (w2\<lparr>storage := s'\<rparr>))
                          | (Inr _, s') \<Rightarrow>
                              (Inr val,
                               emit (StorageSet key data (expires_in self))
                                 (w2\<lparr>storage := s'\<rparr>)))))))"

definition async_wrapper ::
  "'s env \<Rightarrow> async_cache_value \<Rightarrow> 'w func \<Rightarrow> function_key \<Rightarrow> lock
     \<Rightarrow> pyval list \<Rightarrow> (string \<times> pyval) list
     \<Rightarrow> ('s, 'w) world \<Rightarrow> (pyexc + pyval) \<times> ('s, 'w) world"
where
  "async_wrapper env self func function_key lock args kwargs w =
     (case async_bind_storage self w of
        (Inl e, w1) \<Rightarrow> (Inl e, w1)
      | (Inr _, w1) \<Rightarrow>
          with_lock lock (async_critical_section env self func function_key args kwargs) w1)"

text \<open>\<^verbatim>\<open>async_cache_value.__call__\<close>: it refuses whatever is not a coroutine function.\<close>

definition async_cache_value_call ::
  "'s env \<Rightarrow> async_cache_value \<Rightarrow> 'w func
     \<Rightarrow> pyexc + (pyval list \<Rightarrow> (string \<times> pyval) list
                  \<Rightarrow> ('s, 'w) world \<Rightarrow> (pyexc + pyval) \<times> ('s, 'w) world)"
where
  "async_cache_value_call env self func =
     (if \<not> iscoroutinefunction func then
        Inl (TypeError (quote @ ''async_cache_value'' @ quote
               @ '' must wrap a coroutine. If this is a syncronous ''
               @ ''function/method, use '' @ quote @ ''cache_value'' @ quote))
      else
        (let function_key = make_function_key func;
             lock = (if serialize self then AnyioLock else NullLock)
         in Inr (async_wrapper env self func function_key lock)))"

section \<open>Notions used in the statements\<close>

text \<open>
  The configuration of \<^verbatim>\<open>async_cache_value\<close> built with the same four arguments as a
  \<^verbatim>\<open>cache_value\<close>; \<open>a\<close> is what \<^verbatim>\<open>inspect.iscoroutinefunction(self._factory)\<close> gave.
\<close>

definition async_of :: "cache_value \<Rightarrow> bool \<Rightarrow> async_cache_value" where
  "async_of self a =
     \<lparr>factory = factory self, type_encoders = type_encoders self,
      expires_in = expires_in self, serialize = serialize self, is_async = a\<rparr>"

text \<open>The events between a state and a later one.\<close>

definition new_events :: "('s, 'w) world \<Rightarrow> ('s, 'w) world \<Rightarrow> event list" where
  "new_events w w' = drop (length (trace w)) (trace w')"

text \<open>
  An argument whose runtime type is neither natively hashable nor among the type
  encoders.
\<close>

definition unhashable ::
  "'s env \<Rightarrow> (string \<rightharpoonup> (pyval \<Rightarrow> bytes)) option \<Rightarrow> pyval \<Rightarrow> bool"
where
  "unhashable env encoders v \<longleftrightarrow>
     \<not> natively_hashable env (type_name v)
     \<and> (case encoders of None \<Rightarrow> True | Some m \<Rightarrow> m (type_name v) = None)"

section \<open>An example environment\<close>

text \<open>
  The examples run the decorators on a dictionary as storage and on a codec that has the
  format of pickle protocol 4 on \<^verbatim>\<open>None\<close>, \<^verbatim>\<open>True\<close> and \<^verbatim>\<open>False\<close>. As \<^verbatim>\<open>pickle\<close> does,
  the codec refuses a file object with \<^verbatim>\<open>TypeError\<close>, an instance of a local class with
  \<^verbatim>\<open>AttributeError\<close>, and an empty payload with \<^verbatim>\<open>EOFError\<close>.
\<close>

definition example_dumps :: "pyval \<Rightarrow> pyexc + bytes" where
  "example_dumps v =
     (case v of
        PNone \<Rightarrow> Inr [0x80, 0x04, 0x4E, 0x2E]
      | PBool b \<Rightarrow> Inr [0x80, 0x04, if b then 0x88 else 0x89, 0x2E]
      | PObject c _ \<Rightarrow>
          (if c = ''BufferedRandom'' then Inl (TypeError ''cannot pickle BufferedRandom object'')
           else Inl (OtherException ''AttributeError''))
      | _ \<Rightarrow> Inl PicklingError)"

definition example_loads :: "bytes \<Rightarrow> pyexc + pyval" where
  "example_loads data =
     (if data = [] then Inl (OtherException ''EOFError'')
      else if data = [0x80, 0x04, 0x4E, 0x2E] then Inr PNone
      else if data = [0x80, 0x04, 0x88, 0x2E] then Inr (PBool True)
      else if data = [0x80, 0x04, 0x89, 0x2E] then Inr (PBool False)
      else Inl UnpicklingError)"

definition dict_env :: "(key \<rightharpoonup> bytes) env" where
  "dict_env =
     \<lparr>natively_hashable = (\<lambda>t. t = ''NoneType'' \<or> t = ''bool''),
      native_repr = (\<lambda>v. case example_dumps v of Inl _ \<Rightarrow> [] | Inr data \<Rightarrow> data),
      pickle_dumps = example_dumps,
      pickle_loads = example_loads,
      storage_get = (\<lambda>k m. (Inr (m k), m)),
      storage_set = (\<lambda>k data x m. (Inr (), m(k \<mapsto> data)))\<rparr>"

text \<open>A storage whose \<^verbatim>\<open>get\<close> raises, and one whose \<^verbatim>\<open>set\<close> raises.\<close>

definition unreachable_env :: "pyexc \<Rightarrow> (key \<rightharpoonup> bytes) env" where
  "unreachable_env e = dict_env\<lparr>storage_get := (\<lambda>k m. (Inl e, m))\<rparr>"

definition readonly_env :: "pyexc \<Rightarrow> (key \<rightharpoonup> bytes) env" where
  "readonly_env e = dict_env\<lparr>storage_set := (\<lambda>k data x m. (Inl e, m))\<rparr>"

text \<open>
  Functions of the tests: one that returns a value and one that raises, each counting
  its runs in the outside state, and one with a parameter.
\<close>

definition returning :: "pyval \<Rightarrow> nat func" where
  "returning v =
     \<lparr>func_module = ''tests.test_value'', func_qualname = ''call_mock'', params = [],
      iscoroutinefunction = False, body = (\<lambda>args kwargs n. (Inr v, Suc n))\<rparr>"

definition raising :: "pyexc \<Rightarrow> nat func" where
  "raising e =
     \<lparr>func_module = ''tests.test_value'', func_qualname = ''call_mock'', params = [],
      iscoroutinefunction = False, body = (\<lambda>args kwargs n. (Inl e, Suc n))\<rparr>"

definition call_fail :: "nat func" where
  "call_fail =
     \<lparr>func_module = ''tests.test_value'', func_qualname = ''call_fail'', params = [''conn''],
      iscoroutinefunction = False, body = (\<lambda>args kwargs n. (Inr PNone, Suc n))\<rparr>"

definition call_mock_key :: key where
  "call_mock_key = CallKey (''tests.test_value'', ''call_mock'') [] {||}"

text \<open>\<^verbatim>\<open>cache_value()\<close> with its defaults, before the first call.\<close>

definition defaults :: cache_value where
  "defaults = \<lparr>factory = Inr (), type_encoders = None, expires_in = None, serialize = False\<rparr>"

definition fresh :: "(key \<rightharpoonup> bytes, nat) world" where
  "fresh = \<lparr>storage = Map.empty, self_storage = False, outside = 0, trace = []\<rparr>"


section \<open>Properties of one call\<close>

lemma async_of_simps [simp]:
  "factory (async_of self a) = factory self"
  "type_encoders (async_of self a) = type_encoders self"
  "expires_in (async_of self a) = expires_in self"
  "serialize (async_of self a) = serialize self"
  "is_async (async_of self a) = a"
  by (simp_all add: async_of_def)

lemma async_critical_section_eq:
  "async_critical_section env (async_of self a) func fk args kwargs
     = critical_section env self func fk args kwargs"
  unfolding async_critical_section_def critical_section_def async_of_simps
  by (rule refl)

lemma async_wrapper_eq:
  "async_wrapper env (async_of self a) func fk lock args kwargs w
     = wrapper env self func fk lock args kwargs w"
  unfolding async_wrapper_def wrapper_def async_bind_storage_def bind_storage_def
    async_critical_section_eq async_of_simps if_cancel
  by (rule refl)

lemma emit_simps [simp]:
  "storage (emit ev w) = storage w"
  "self_storage (emit ev w) = self_storage w"
  "outside (emit ev w) = outside w"
  "trace (emit ev w) = trace w @ [ev]"
  by (simp_all add: emit_def)

lemma executions_simps [simp]:
  "executions (emit ev w) = (if is_FuncCalled ev then Suc (executions w) else executions w)"
  "executions (w\<lparr>storage := s\<rparr>) = executions w"
  "executions (w\<lparr>outside := out\<rparr>) = executions w"
  "executions (w\<lparr>self_storage := b\<rparr>) = executions w"
  by (simp_all add: executions_def emit_def)

lemma writes_simps [simp]:
  "writes (emit ev w) = (if is_StorageSet ev then Suc (writes w) else writes w)"
  "writes (w\<lparr>storage := s\<rparr>) = writes w"
  "writes (w\<lparr>outside := out\<rparr>) = writes w"
  "writes (w\<lparr>self_storage := b\<rparr>) = writes w"
  by (simp_all add: writes_def emit_def)

lemma new_events_simps [simp]:
  "new_events w w = []"
  "new_events w (w'\<lparr>storage := s\<rparr>) = new_events w w'"
  "new_events w (w'\<lparr>outside := out\<rparr>) = new_events w w'"
  "new_events w (w'\<lparr>self_storage := b\<rparr>) = new_events w w'"
  by (simp_all add: new_events_def)

lemma new_events_emit [simp]:
  "length (trace w) \<le> length (trace w') \<Longrightarrow> new_events w (emit ev w') = new_events w w' @ [ev]"
  by (simp add: new_events_def)

lemmas wrapper_defs = wrapper_def bind_storage_def with_lock_def critical_section_def

lemma wrapper_key_fails:
  assumes "self_storage w \<or> factory self = Inr ()"
    and "make_value_key env fk func (type_encoders self) args kwargs = Inl e"
  shows "fst (wrapper env self func fk lock args kwargs w) = Inl e"
    and "executions (snd (wrapper env self func fk lock args kwargs w)) = executions w"
    and "writes (snd (wrapper env self func fk lock args kwargs w)) = writes w"
    and "storage (snd (wrapper env self func fk lock args kwargs w)) = storage w"
    and "outside (snd (wrapper env self func fk lock args kwargs w)) = outside w"
    and "self_storage (snd (wrapper env self func fk lock args kwargs w))"
  using assms by (auto simp add: wrapper_defs split: lock.splits)

lemma wrapper_get_fails:
  assumes "self_storage w \<or> factory self = Inr ()"
    and "make_value_key env fk func (type_encoders self) args kwargs = Inr k"
    and "storage_get env k (storage w) = (Inl e, s)"
  shows "fst (wrapper env self func fk lock args kwargs w)
           = Inl (if is_ImproperlyConfiguredException e then e else CacheError (ErrGetting k) e)"
    and "executions (snd (wrapper env self func fk lock args kwargs w)) = executions w"
    and "writes (snd (wrapper env self func fk lock args kwargs w)) = writes w"
    and "storage (snd (wrapper env self func fk lock args kwargs w)) = s"
    and "outside (snd (wrapper env self func fk lock args kwargs w)) = outside w"
    and "self_storage (snd (wrapper env self func fk lock args kwargs w))"
  using assms by (auto simp add: wrapper_defs split: lock.splits)

lemma wrapper_hit:
  assumes "self_storage w \<or> factory self = Inr ()"
    and "make_value_key env fk func (type_encoders self) args kwargs = Inr k"
    and "storage_get env k (storage w) = (Inr (Some data), s)"
  shows "fst (wrapper env self func fk lock args kwargs w)
           = (case pickle_loads env data of
                Inr v \<Rightarrow> Inr v
              | Inl e \<Rightarrow> Inl (if is_UnpicklingError e then CacheError (ErrUnpickle k) e else e))"
    and "executions (snd (wrapper env self func fk lock args kwargs w)) = executions w"
    and "writes (snd (wrapper env self func fk lock args kwargs w)) = writes w"
    and "storage (snd (wrapper env self func fk lock args kwargs w)) = s"
    and "outside (snd (wrapper env self func fk lock args kwargs w)) = outside w"
    and "self_storage (snd (wrapper env self func fk lock args kwargs w))"
    and "DebugCacheHit \<in> set (new_events w (snd (wrapper env self func fk lock args kwargs w)))"
  using assms by (auto simp add: wrapper_defs Let_def split: lock.splits sum.splits)

lemma wrapper_miss_raises:
  assumes "self_storage w \<or> factory self = Inr ()"
    and "make_value_key env fk func (type_encoders self) args kwargs = Inr k"
    and "storage_get env k (storage w) = (Inr None, s)"
    and "body func args kwargs (outside w) = (Inl e, out)"
  shows "fst (wrapper env self func fk lock args kwargs w) = Inl e"
    and "executions (snd (wrapper env self func fk lock args kwargs w)) = Suc (executions w)"
    and "writes (snd (wrapper env self func fk lock args kwargs w)) = writes w"
    and "storage (snd (wrapper env self func fk lock args kwargs w)) = s"
    and "outside (snd (wrapper env self func fk lock args kwargs w)) = out"
    and "self_storage (snd (wrapper env self func fk lock args kwargs w))"
    and "FuncCalled args kwargs
           \<in> set (new_events w (snd (wrapper env self func fk lock args kwargs w)))"
  using assms by (auto simp add: wrapper_defs Let_def split: lock.splits)

lemma wrapper_miss_unpicklable:
  assumes "self_storage w \<or> factory self = Inr ()"
    and "make_value_key env fk func (type_encoders self) args kwargs = Inr k"
    and "storage_get env k (storage w) = (Inr None, s)"
    and "body func args kwargs (outside w) = (Inr v, out)"
    and "pickle_dumps env v = Inl e"
  shows "fst (wrapper env self func fk lock args kwargs w)
           = Inl (if is_TypeError_or_PicklingError e
                  then UnserializableReturnValueError (func_ref func) v e else e)"
    and "executions (snd (wrapper env self func fk lock args kwargs w)) = Suc (executions w)"
    and "writes (snd (wrapper env self func fk lock args kwargs w)) = writes w"
    and "storage (snd (wrapper env self func fk lock args kwargs w)) = s"
    and "outside (snd (wrapper env self func fk lock args kwargs w)) = out"
    and "self_storage (snd (wrapper env self func fk lock args kwargs w))"
    and "FuncCalled args kwargs
           \<in> set (new_events w (snd (wrapper env self func fk lock args kwargs w)))"
  using assms by (auto simp add: wrapper_defs Let_def split: lock.splits)

lemma wrapper_miss_stores:
  assumes "self_storage w \<or> factory self = Inr ()"
    and "make_value_key env fk func (type_encoders self) args kwargs = Inr k"
    and "storage_get env k (storage w) = (Inr None, s)"
    and "body func args kwargs (outside w) = (Inr v, out)"
    and "pickle_dumps env v = Inr data"
    and "storage_set env k data (expires_in self) s = (r, s')"
  shows "fst (wrapper env self func fk lock args kwargs w)
           = (case r of Inl e \<Rightarrow> Inl (CacheError (ErrSaving k) e) | Inr _ \<Rightarrow> Inr v)"
    and "executions (snd (wrapper env self func fk lock args kwargs w)) = Suc (executions w)"
    and "writes (snd (wrapper env self func fk lock args kwargs w)) = Suc (writes w)"
    and "storage (snd (wrapper env self func fk lock args kwargs w)) = s'"
    and "outside (snd (wrapper env self func fk lock args kwargs w)) = out"
    and "self_storage (snd (wrapper env self func fk lock args kwargs w))"
    and "FuncCalled args kwargs
           \<in> set (new_events w (snd (wrapper env self func fk lock args kwargs w)))"
    and "StorageSet k data (expires_in self)
           \<in> set (new_events w (snd (wrapper env self func fk lock args kwargs w)))"
  using assms by (auto simp add: wrapper_defs Let_def split: lock.splits sum.splits)


lemma make_value_key_no_args:
  "make_value_key env fk func encoders [] [] = Inr (CallKey fk [] {||})"
  by (simp add: make_value_key_def arg_pairs_def)

lemma wrapper_miss_invokes:
  assumes "self_storage w \<or> factory self = Inr ()"
    and "make_value_key env fk func (type_encoders self) args kwargs = Inr k"
    and "storage_get env k (storage w) = (Inr None, s)"
  shows "executions (snd (wrapper env self func fk lock args kwargs w)) = Suc (executions w)"
    and "FuncCalled args kwargs
           \<in> set (new_events w (snd (wrapper env self func fk lock args kwargs w)))"
proof -
  obtain r out where b: "body func args kwargs (outside w) = (r, out)"
    by (cases "body func args kwargs (outside w)")
  have "executions (snd (wrapper env self func fk lock args kwargs w)) = Suc (executions w)
        \<and> FuncCalled args kwargs
           \<in> set (new_events w (snd (wrapper env self func fk lock args kwargs w)))"
  proof (cases r)
    case (Inl e)
    with b assms show ?thesis
      by (simp add: wrapper_miss_raises)
  next
    case (Inr v)
    show ?thesis
    proof (cases "pickle_dumps env v")
      case (Inl e)
      with b Inr assms show ?thesis
        by (simp add: wrapper_miss_unpicklable)
    next
      case d: (Inr data)
      obtain r' s' where "storage_set env k data (expires_in self) s = (r', s')"
        by (cases "storage_set env k data (expires_in self) s")
      with b Inr d assms show ?thesis
        by (simp add: wrapper_miss_stores)
    qed
  qed
  then show "executions (snd (wrapper env self func fk lock args kwargs w)) = Suc (executions w)"
    and "FuncCalled args kwargs
           \<in> set (new_events w (snd (wrapper env self func fk lock args kwargs w)))"
    by simp_all
qed

lemma wrapper_miss_then_hit:
  assumes "self_storage w \<or> factory self = Inr ()"
    and "make_value_key env fk func (type_encoders self) args kwargs = Inr k"
    and "storage_get env k (storage w) = (Inr None, s1)"
    and "body func args kwargs (outside w) = (Inr v, out)"
    and "pickle_dumps env v = Inr data"
    and "storage_set env k data (expires_in self) s1 = (Inr (), s2)"
    and "storage_get env k s2 = (Inr (Some data), s3)"
    and "pickle_loads env data = Inr v"
  shows "(let first = wrapper env self func fk lock args kwargs w;
              second = wrapper env self func fk lock args kwargs (snd first) in
          fst first = Inr v \<and> fst second = Inr v
          \<and> executions (snd second) = executions w + 1
          \<and> executions (snd second) = executions (snd first)
          \<and> writes (snd second) = writes (snd first)
          \<and> DebugCacheHit \<in> set (new_events (snd first) (snd second)))"
proof -
  let ?first = "wrapper env self func fk lock args kwargs w"
  let ?second = "wrapper env self func fk lock args kwargs (snd ?first)"
  note one = wrapper_miss_stores [OF assms(1-6), of lock]
  have b: "self_storage (snd ?first) \<or> factory self = Inr ()"
    using one(6) by simp
  have g: "storage_get env k (storage (snd ?first)) = (Inr (Some data), s3)"
    using one(4) assms(7) by simp
  note two = wrapper_hit [OF b assms(2) g, of lock]
  have "fst ?first = Inr v" using one(1) by simp
  moreover have "fst ?second = Inr v" using two(1) assms(8) by simp
  moreover have "executions (snd ?second) = executions w + 1" using one(2) two(2) by simp
  moreover have "executions (snd ?second) = executions (snd ?first)" using two(2) .
  moreover have "writes (snd ?second) = writes (snd ?first)" using two(3) .
  moreover have "DebugCacheHit \<in> set (new_events (snd ?first) (snd ?second))" using two(7) .
  ultimately show ?thesis by (simp add: Let_def)
qed

lemma param_repr_unhashable:
  "unhashable env encoders v
     \<Longrightarrow> param_repr env encoders n v = Inl (UnhashableParamError n (type_name v))"
  by (cases encoders) (simp_all add: param_repr_def unhashable_def)

lemma param_repr_hashable:
  "\<not> unhashable env encoders v \<Longrightarrow> \<exists>b. param_repr env encoders n v = Inr b"
  by (cases encoders) (auto simp add: param_repr_def unhashable_def)

lemma param_reprs_unhashable:
  "\<exists>p \<in> set ps. unhashable env encoders (snd p)
     \<Longrightarrow> \<exists>n v. (n, v) \<in> set ps \<and> unhashable env encoders v
           \<and> param_reprs env encoders ps = Inl (UnhashableParamError n (type_name v))"
proof (induction ps)
  case Nil
  then show ?case by simp
next
  case (Cons p ps)
  obtain n v where p: "p = (n, v)" by (cases p)
  show ?case
  proof (cases "unhashable env encoders v")
    case True
    then have "param_reprs env encoders (p # ps) = Inl (UnhashableParamError n (type_name v))"
      by (simp add: p param_repr_unhashable)
    with True p show ?thesis by auto
  next
    case False
    then obtain b where b: "param_repr env encoders n v = Inr b"
      using param_repr_hashable by blast
    from False Cons.prems p have "\<exists>q \<in> set ps. unhashable env encoders (snd q)"
      by auto
    from Cons.IH [OF this] obtain n' v' where
      "(n', v') \<in> set ps" "unhashable env encoders v'"
      "param_reprs env encoders ps = Inl (UnhashableParamError n' (type_name v'))"
      by blast
    with p b show ?thesis by auto
  qed
qed

lemma snd_arg_pairs:
  "snd ` set (arg_pairs func args kwargs) = set args \<union> snd ` set kwargs"
proof -
  have "map snd (arg_pairs func args kwargs) = args @ map snd kwargs"
    by (simp add: arg_pairs_def case_prod_unfold comp_def)
  then have "set (map snd (arg_pairs func args kwargs)) = set (args @ map snd kwargs)"
    by simp
  then show ?thesis by simp
qed

lemma make_value_key_unhashable:
  assumes "v0 \<in> set args \<union> snd ` set kwargs" and "unhashable env encoders v0"
  shows "\<exists>n v. (n, v) \<in> set (arg_pairs func args kwargs) \<and> unhashable env encoders v
           \<and> make_value_key env fk func encoders args kwargs
               = Inl (UnhashableParamError n (type_name v))"
proof -
  from assms(1) have "v0 \<in> snd ` set (arg_pairs func args kwargs)"
    by (simp only: snd_arg_pairs)
  with assms(2) have "\<exists>p \<in> set (arg_pairs func args kwargs). unhashable env encoders (snd p)"
    by auto
  from param_reprs_unhashable [OF this] show ?thesis
    by (auto simp add: make_value_key_def)
qed

lemma positional_name_flavour:
  "positional_name (func\<lparr>iscoroutinefunction := b\<rparr>) = positional_name func"
  by (rule ext) (simp add: positional_name_def)

lemma func_update_simps:
  "body (func\<lparr>iscoroutinefunction := b\<rparr>) = body func"
  "func_ref (func\<lparr>iscoroutinefunction := b\<rparr>) = func_ref func"
  "make_value_key env fk (func\<lparr>iscoroutinefunction := b\<rparr>) = make_value_key env fk func"
  by (simp_all add: func_ref_def make_value_key_def arg_pairs_def positional_name_flavour
      fun_eq_iff)

lemma critical_section_flavour:
  "critical_section env self (func\<lparr>iscoroutinefunction := b\<rparr>) fk args kwargs
     = critical_section env self func fk args kwargs"
  unfolding critical_section_def func_update_simps by (rule refl)

lemma wrapper_flavour:
  "wrapper env self (func\<lparr>iscoroutinefunction := b\<rparr>) fk lock args kwargs w
     = wrapper env self func fk lock args kwargs w"
  unfolding wrapper_def critical_section_flavour by (rule refl)

lemma async_critical_section_flavour:
  "async_critical_section env self (func\<lparr>iscoroutinefunction := b\<rparr>) fk args kwargs
     = async_critical_section env self func fk args kwargs"
  unfolding async_critical_section_def func_update_simps by (rule refl)

lemma async_wrapper_flavour:
  "async_wrapper env self (func\<lparr>iscoroutinefunction := b\<rparr>) fk lock args kwargs w
     = async_wrapper env self func fk lock args kwargs w"
  unfolding async_wrapper_def async_critical_section_flavour by (rule refl)

section \<open>Properties of the specification\<close>

text \<open>
  C3. When \<^verbatim>\<open>storage.get\<close> raises, the call raises: \<^verbatim>\<open>ImproperlyConfiguredException\<close> as it
  is, any other exception inside a \<^verbatim>\<open>CacheError\<close> whose message holds the key and says
  that the failure was in getting, with the exception as cause. The wrapped function is
  not run and nothing is written. Both flavours.
\<close>

theorem get_failure_aborts:
  assumes "self_storage w \<or> factory self = Inr ()"
    and "make_value_key env fk func (type_encoders self) args kwargs = Inr k"
    and "storage_get env k (storage w) = (Inl e, s)"
  shows "\<forall>call \<in> {wrapper env self func fk lock,
                   async_wrapper env (async_of self a) func fk lock}.
           fst (call args kwargs w)
             = Inl (if is_ImproperlyConfiguredException e then e
                    else CacheError (ErrGetting k) e)
           \<and> executions (snd (call args kwargs w)) = executions w
           \<and> writes (snd (call args kwargs w)) = writes w"
  using assms by (simp add: async_wrapper_eq wrapper_get_fails)

theorem get_failure_aborts_witness:
  "fst (wrapper (unreachable_env (OtherException ''ConnectionError'')) defaults
          (returning PNone) (''tests.test_value'', ''call_mock'') NullLock [] [] fresh)
     = Inl (CacheError (ErrGetting call_mock_key) (OtherException ''ConnectionError''))
   \<and> fst (async_wrapper (unreachable_env ImproperlyConfiguredException) (async_of defaults True)
          (returning PNone) (''tests.test_value'', ''call_mock'') AnyioLock [] [] fresh)
     = Inl ImproperlyConfiguredException
   \<and> executions (snd (wrapper (unreachable_env (OtherException ''ConnectionError'')) defaults
          (returning PNone) (''tests.test_value'', ''call_mock'') NullLock [] [] fresh)) = 0"
proof -
  let ?fk = "(''tests.test_value'', ''call_mock'')"
  have b: "self_storage fresh \<or> factory defaults = Inr ()"
    by (simp add: defaults_def)
  have k: "make_value_key (unreachable_env e) ?fk (returning PNone) (type_encoders defaults) [] []
             = Inr call_mock_key" for e
    by (simp add: make_value_key_no_args call_mock_key_def)
  have g: "storage_get (unreachable_env e) call_mock_key (storage fresh) = (Inl e, Map.empty)" for e
    by (simp add: unreachable_env_def fresh_def)
  have x: "executions fresh = 0"
    by (simp add: executions_def fresh_def)
  from get_failure_aborts [OF b k g, where lock = NullLock and a = True,
      of "OtherException ''ConnectionError''"]
    get_failure_aborts [OF b k g, where lock = AnyioLock and a = True,
      of ImproperlyConfiguredException] x
  show ?thesis by simp
qed

text \<open>
  C6. When the computed value is pickled and \<^verbatim>\<open>storage.set\<close> then raises, whatever the
  exception, the call raises a \<^verbatim>\<open>CacheError\<close> whose message holds the key and says that
  the failure was in saving, with the exception as cause; the computed value is not
  returned. Both flavours.
\<close>

theorem set_failure_fails_call:
  assumes "self_storage w \<or> factory self = Inr ()"
    and "make_value_key env fk func (type_encoders self) args kwargs = Inr k"
    and "storage_get env k (storage w) = (Inr None, s)"
    and "body func args kwargs (outside w) = (Inr v, out)"
    and "pickle_dumps env v = Inr data"
    and "storage_set env k data (expires_in self) s = (Inl e, s')"
  shows "\<forall>call \<in> {wrapper env self func fk lock,
                   async_wrapper env (async_of self a) func fk lock}.
           fst (call args kwargs w) = Inl (CacheError (ErrSaving k) e)
           \<and> fst (call args kwargs w) \<noteq> Inr v
           \<and> StorageSet k data (expires_in self)
                \<in> set (new_events w (snd (call args kwargs w)))"
  using wrapper_miss_stores [OF assms, of lock] by (simp add: async_wrapper_eq)

theorem set_failure_fails_call_witness:
  "fst (wrapper (readonly_env ImproperlyConfiguredException) defaults
          (returning (PBool True)) (''tests.test_value'', ''call_mock'') ThreadingLock [] [] fresh)
     = Inl (CacheError (ErrSaving call_mock_key) ImproperlyConfiguredException)
   \<and> fst (async_wrapper (readonly_env (OtherException ''ConnectionError''))
          (async_of defaults False)
          (returning (PBool True)) (''tests.test_value'', ''call_mock'') NullLock [] [] fresh)
     = Inl (CacheError (ErrSaving call_mock_key) (OtherException ''ConnectionError''))"
proof -
  let ?fk = "(''tests.test_value'', ''call_mock'')"
  have b: "self_storage fresh \<or> factory defaults = Inr ()"
    by (simp add: defaults_def)
  have k: "make_value_key (readonly_env e) ?fk (returning (PBool True))
             (type_encoders defaults) [] [] = Inr call_mock_key" for e
    by (simp add: make_value_key_no_args call_mock_key_def)
  have g: "storage_get (readonly_env e) call_mock_key (storage fresh) = (Inr None, Map.empty)"
    for e
    by (simp add: readonly_env_def dict_env_def fresh_def)
  have f: "body (returning (PBool True)) [] [] (outside fresh) = (Inr (PBool True), 1)"
    by (simp add: returning_def fresh_def)
  have d: "pickle_dumps (readonly_env e) (PBool True) = Inr [0x80, 0x04, 0x88, 0x2E]" for e
    by (simp add: readonly_env_def dict_env_def example_dumps_def)
  have t: "storage_set (readonly_env e) call_mock_key [0x80, 0x04, 0x88, 0x2E]
             (expires_in defaults) Map.empty = (Inl e, Map.empty)" for e
    by (simp add: readonly_env_def)
  from set_failure_fails_call [OF b k g f d t, where lock = ThreadingLock and a = True,
      of ImproperlyConfiguredException]
    set_failure_fails_call [OF b k g f d t, where lock = NullLock and a = False,
      of "OtherException ''ConnectionError''"]
  show ?thesis by simp
qed

text \<open>
  C7. When the wrapped function raises, the call raises the same exception, unchanged;
  \<^verbatim>\<open>storage.set\<close> is not called and the storage is as the lookup left it. A later call
  whose lookup misses again runs the wrapped function again. Both flavours.
\<close>

theorem function_exception_propagates:
  assumes "self_storage w \<or> factory self = Inr ()"
    and "make_value_key env fk func (type_encoders self) args kwargs = Inr k"
    and "storage_get env k (storage w) = (Inr None, s)"
    and "body func args kwargs (outside w) = (Inl e, out)"
  shows "\<forall>call \<in> {wrapper env self func fk lock,
                   async_wrapper env (async_of self a) func fk lock}.
           (let first = call args kwargs w; second = call args kwargs (snd first) in
            fst first = Inl e
            \<and> writes (snd first) = writes w
            \<and> storage (snd first) = s
            \<and> (\<forall>s'. storage_get env k s = (Inr None, s') \<longrightarrow>
                  executions (snd second) = executions w + 2
                  \<and> FuncCalled args kwargs \<in> set (new_events (snd first) (snd second))))"
proof -
  let ?first = "wrapper env self func fk lock args kwargs w"
  let ?second = "wrapper env self func fk lock args kwargs (snd ?first)"
  note one = wrapper_miss_raises [OF assms, of lock]
  have again: "executions (snd ?second) = executions w + 2
      \<and> FuncCalled args kwargs \<in> set (new_events (snd ?first) (snd ?second))"
    if "storage_get env k s = (Inr None, s')" for s'
  proof -
    have b: "self_storage (snd ?first) \<or> factory self = Inr ()"
      using one(6) by simp
    have g: "storage_get env k (storage (snd ?first)) = (Inr None, s')"
      using one(4) that by simp
    from wrapper_miss_invokes [OF b assms(2) g, where lock = lock] one(2)
    show ?thesis by simp
  qed
  have "fst ?first = Inl e \<and> writes (snd ?first) = writes w \<and> storage (snd ?first) = s"
    using one by simp
  moreover from again have "\<forall>s'. storage_get env k s = (Inr None, s') \<longrightarrow>
      executions (snd ?second) = executions w + 2
      \<and> FuncCalled args kwargs \<in> set (new_events (snd ?first) (snd ?second))"
    by blast
  ultimately show ?thesis
    by (simp add: async_wrapper_eq Let_def)
qed

theorem function_exception_propagates_witness:
  "(let first = wrapper dict_env defaults (raising (OtherException ''ValueError''))
                  (''tests.test_value'', ''call_mock'') NullLock [] [] fresh;
        second = wrapper dict_env defaults (raising (OtherException ''ValueError''))
                  (''tests.test_value'', ''call_mock'') NullLock [] [] (snd first) in
    fst first = Inl (OtherException ''ValueError'')
    \<and> storage (snd first) = Map.empty
    \<and> executions (snd second) = 2)"
proof -
  let ?fk = "(''tests.test_value'', ''call_mock'')"
  let ?f = "raising (OtherException ''ValueError'')"
  have b: "self_storage fresh \<or> factory defaults = Inr ()"
    by (simp add: defaults_def)
  have k: "make_value_key dict_env ?fk ?f (type_encoders defaults) [] [] = Inr call_mock_key"
    by (simp add: make_value_key_no_args call_mock_key_def)
  have g: "storage_get dict_env call_mock_key (storage fresh) = (Inr None, Map.empty)"
    by (simp add: dict_env_def fresh_def)
  have f: "body ?f [] [] (outside fresh) = (Inl (OtherException ''ValueError''), 1)"
    by (simp add: raising_def fresh_def)
  have g': "storage_get dict_env call_mock_key Map.empty = (Inr None, Map.empty)"
    by (simp add: dict_env_def)
  have x: "executions fresh = 0"
    by (simp add: executions_def fresh_def)
  from function_exception_propagates [OF b k g f, where lock = NullLock and a = True] g' x
  show ?thesis by (simp add: Let_def)
qed

text \<open>
  C2. On a miss the wrapped function is run, once, with the positional and keyword
  arguments of the call. When it returns a value that pickles, \<^verbatim>\<open>storage.set\<close> is called
  with the derived key, the payload and \<^verbatim>\<open>expires_in\<close>; when that succeeds, the call
  returns the computed value. Both flavours.
\<close>

theorem miss_computes_and_stores:
  assumes "self_storage w \<or> factory self = Inr ()"
    and "make_value_key env fk func (type_encoders self) args kwargs = Inr k"
    and "storage_get env k (storage w) = (Inr None, s)"
  shows "\<forall>call \<in> {wrapper env self func fk lock,
                   async_wrapper env (async_of self a) func fk lock}.
           FuncCalled args kwargs \<in> set (new_events w (snd (call args kwargs w)))
           \<and> executions (snd (call args kwargs w)) = executions w + 1
           \<and> (\<forall>v out data. body func args kwargs (outside w) = (Inr v, out)
                  \<longrightarrow> pickle_dumps env v = Inr data
                  \<longrightarrow> StorageSet k data (expires_in self)
                        \<in> set (new_events w (snd (call args kwargs w)))
                      \<and> writes (snd (call args kwargs w)) = writes w + 1
                      \<and> (\<forall>s'. storage_set env k data (expires_in self) s = (Inr (), s')
                            \<longrightarrow> fst (call args kwargs w) = Inr v
                                \<and> storage (snd (call args kwargs w)) = s'))"
proof -
  let ?call = "wrapper env self func fk lock args kwargs w"
  have stores: "StorageSet k data (expires_in self) \<in> set (new_events w (snd ?call))
      \<and> writes (snd ?call) = writes w + 1
      \<and> (\<forall>s'. storage_set env k data (expires_in self) s = (Inr (), s')
            \<longrightarrow> fst ?call = Inr v \<and> storage (snd ?call) = s')"
    if f: "body func args kwargs (outside w) = (Inr v, out)"
      and d: "pickle_dumps env v = Inr data" for v out data
  proof -
    obtain r s' where t: "storage_set env k data (expires_in self) s = (r, s')"
      by (cases "storage_set env k data (expires_in self) s")
    from wrapper_miss_stores [OF assms f d t, of lock] t show ?thesis
      by auto
  qed
  then have "\<forall>v out data. body func args kwargs (outside w) = (Inr v, out)
      \<longrightarrow> pickle_dumps env v = Inr data
      \<longrightarrow> StorageSet k data (expires_in self) \<in> set (new_events w (snd ?call))
          \<and> writes (snd ?call) = writes w + 1
          \<and> (\<forall>s'. storage_set env k data (expires_in self) s = (Inr (), s')
                \<longrightarrow> fst ?call = Inr v \<and> storage (snd ?call) = s')"
    by blast
  moreover have "FuncCalled args kwargs \<in> set (new_events w (snd ?call))"
    using wrapper_miss_invokes [OF assms] by simp
  moreover have "executions (snd ?call) = executions w + 1"
    using wrapper_miss_invokes [OF assms] by simp
  ultimately show ?thesis
    by (simp add: async_wrapper_eq)
qed

theorem miss_computes_and_stores_witness:
  "fst (wrapper dict_env (defaults\<lparr>expires_in := Some (Seconds 1)\<rparr>) (returning (PBool True))
          (''tests.test_value'', ''call_mock'') NullLock [] [] fresh) = Inr (PBool True)
   \<and> new_events fresh
        (snd (wrapper dict_env (defaults\<lparr>expires_in := Some (Seconds 1)\<rparr>)
               (returning (PBool True)) (''tests.test_value'', ''call_mock'') NullLock [] [] fresh))
     = [FactoryCalled, StorageGet call_mock_key, DebugCacheMiss, FuncCalled [] [],
        StorageSet call_mock_key [0x80, 0x04, 0x88, 0x2E] (Some (Seconds 1))]
   \<and> storage (snd (wrapper dict_env (defaults\<lparr>expires_in := Some (Seconds 1)\<rparr>)
               (returning (PBool True)) (''tests.test_value'', ''call_mock'') NullLock [] [] fresh))
     = [call_mock_key \<mapsto> [0x80, 0x04, 0x88, 0x2E]]"
proof -
  let ?fk = "(''tests.test_value'', ''call_mock'')"
  let ?self = "defaults\<lparr>expires_in := Some (Seconds 1)\<rparr>"
  let ?f = "returning (PBool True)"
  let ?data = "[0x80, 0x04, 0x88, 0x2E] :: bytes"
  have b: "self_storage fresh \<or> factory ?self = Inr ()"
    by (simp add: defaults_def)
  have k: "make_value_key dict_env ?fk ?f (type_encoders ?self) [] [] = Inr call_mock_key"
    by (simp add: make_value_key_no_args call_mock_key_def)
  have g: "storage_get dict_env call_mock_key (storage fresh) = (Inr None, Map.empty)"
    by (simp add: dict_env_def fresh_def)
  have f: "body ?f [] [] (outside fresh) = (Inr (PBool True), 1)"
    by (simp add: returning_def fresh_def)
  have d: "pickle_dumps dict_env (PBool True) = Inr ?data"
    by (simp add: dict_env_def example_dumps_def)
  have t: "storage_set dict_env call_mock_key ?data (expires_in ?self) Map.empty
             = (Inr (), [call_mock_key \<mapsto> ?data])"
    by (simp add: dict_env_def)
  have e: "new_events fresh (snd (wrapper dict_env ?self ?f ?fk NullLock [] [] fresh))
     = [FactoryCalled, StorageGet call_mock_key, DebugCacheMiss, FuncCalled [] [],
        StorageSet call_mock_key ?data (Some (Seconds 1))]"
    using k g f d t
    by (simp add: wrapper_defs new_events_def defaults_def fresh_def emit_def)
  from miss_computes_and_stores [OF b k g, where lock = NullLock and a = True] f d t e
  show ?thesis by simp
qed







text \<open>
  C1. Two calls in a row of a decorated function without arguments, the first of which
  misses: when the function returns a value that pickles, the payload is stored, the
  second lookup finds it and it unpickles to the value, then both calls return that
  value, the function has run once, and the second call logs a hit, runs nothing and
  writes nothing. Both flavours.
\<close>

theorem sequential_calls_execute_once:
  assumes "self_storage w \<or> factory self = Inr ()"
    and "storage_get env (CallKey fk [] {||}) (storage w) = (Inr None, s1)"
    and "body func [] [] (outside w) = (Inr v, out)"
    and "pickle_dumps env v = Inr data"
    and "storage_set env (CallKey fk [] {||}) data (expires_in self) s1 = (Inr (), s2)"
    and "storage_get env (CallKey fk [] {||}) s2 = (Inr (Some data), s3)"
    and "pickle_loads env data = Inr v"
  shows "\<forall>call \<in> {wrapper env self func fk lock,
                   async_wrapper env (async_of self a) func fk lock}.
           (let first = call [] [] w; second = call [] [] (snd first) in
            fst first = Inr v \<and> fst second = Inr v
            \<and> executions (snd second) = executions w + 1
            \<and> executions (snd second) = executions (snd first)
            \<and> writes (snd second) = writes (snd first)
            \<and> DebugCacheHit \<in> set (new_events (snd first) (snd second)))"
  using wrapper_miss_then_hit [OF assms(1) make_value_key_no_args assms(2-7), of lock]
  by (simp add: async_wrapper_eq)

theorem sequential_calls_execute_once_witness:
  "(let first = wrapper dict_env defaults (returning (PBool True))
                  (''tests.test_value'', ''call_mock'') NullLock [] [] fresh;
        second = wrapper dict_env defaults (returning (PBool True))
                  (''tests.test_value'', ''call_mock'') NullLock [] [] (snd first) in
    fst first = Inr (PBool True) \<and> fst second = Inr (PBool True)
    \<and> executions (snd second) = 1)"
proof -
  let ?fk = "(''tests.test_value'', ''call_mock'')"
  let ?f = "returning (PBool True)"
  let ?data = "[0x80, 0x04, 0x88, 0x2E] :: bytes"
  have b: "self_storage fresh \<or> factory defaults = Inr ()"
    by (simp add: defaults_def)
  have g: "storage_get dict_env (CallKey ?fk [] {||}) (storage fresh) = (Inr None, Map.empty)"
    by (simp add: dict_env_def fresh_def)
  have f: "body ?f [] [] (outside fresh) = (Inr (PBool True), 1)"
    by (simp add: returning_def fresh_def)
  have d: "pickle_dumps dict_env (PBool True) = Inr ?data"
    by (simp add: dict_env_def example_dumps_def)
  have t: "storage_set dict_env (CallKey ?fk [] {||}) ?data (expires_in defaults) Map.empty
             = (Inr (), [CallKey ?fk [] {||} \<mapsto> ?data])"
    by (simp add: dict_env_def)
  have g': "storage_get dict_env (CallKey ?fk [] {||}) [CallKey ?fk [] {||} \<mapsto> ?data]
              = (Inr (Some ?data), [CallKey ?fk [] {||} \<mapsto> ?data])"
    by (simp add: dict_env_def)
  have l: "pickle_loads dict_env ?data = Inr (PBool True)"
    by (simp add: dict_env_def example_loads_def)
  have x: "executions fresh = 0"
    by (simp add: executions_def fresh_def)
  from sequential_calls_execute_once [OF b g f d t g' l, where lock = NullLock and a = True] x
  show ?thesis by (simp add: Let_def)
qed

text \<open>
  C10. A function that returns \<^verbatim>\<open>None\<close> is cached as any other: the payload of \<^verbatim>\<open>None\<close>
  is handed to \<^verbatim>\<open>storage.set\<close>, and when the second lookup finds that payload the second
  call is a hit that returns \<^verbatim>\<open>None\<close> without running the function. What decides
  between hit and miss is whether the lookup returned a payload, never the value in it.
  Both flavours.
\<close>

theorem none_is_cached:
  assumes "self_storage w \<or> factory self = Inr ()"
    and "make_value_key env fk func (type_encoders self) args kwargs = Inr k"
    and "storage_get env k (storage w) = (Inr None, s1)"
    and "body func args kwargs (outside w) = (Inr PNone, out)"
    and "pickle_dumps env PNone = Inr data"
    and "storage_set env k data (expires_in self) s1 = (Inr (), s2)"
    and "storage_get env k s2 = (Inr (Some data), s3)"
    and "pickle_loads env data = Inr PNone"
  shows "\<forall>call \<in> {wrapper env self func fk lock,
                   async_wrapper env (async_of self a) func fk lock}.
           (let first = call args kwargs w; second = call args kwargs (snd first) in
            StorageSet k data (expires_in self) \<in> set (new_events w (snd first))
            \<and> fst first = Inr PNone \<and> fst second = Inr PNone
            \<and> DebugCacheHit \<in> set (new_events (snd first) (snd second))
            \<and> executions (snd second) = executions (snd first)
            \<and> executions (snd second) = executions w + 1)"
  using wrapper_miss_then_hit [OF assms, of lock] wrapper_miss_stores(8) [OF assms(1-6), of lock]
  by (simp add: async_wrapper_eq Let_def)

theorem none_is_cached_witness:
  "(let first = async_wrapper dict_env (async_of defaults True) (returning PNone)
                  (''tests.test_value'', ''call_mock'') AnyioLock [] [] fresh;
        second = async_wrapper dict_env (async_of defaults True) (returning PNone)
                  (''tests.test_value'', ''call_mock'') AnyioLock [] [] (snd first) in
    fst first = Inr PNone \<and> fst second = Inr PNone
    \<and> executions (snd second) = 1
    \<and> outside (snd second) = 1)"
proof -
  let ?fk = "(''tests.test_value'', ''call_mock'')"
  let ?f = "returning PNone"
  let ?data = "[0x80, 0x04, 0x4E, 0x2E] :: bytes"
  have b: "self_storage fresh \<or> factory defaults = Inr ()"
    by (simp add: defaults_def)
  have k: "make_value_key dict_env ?fk ?f (type_encoders defaults) [] [] = Inr call_mock_key"
    by (simp add: make_value_key_no_args call_mock_key_def)
  have g: "storage_get dict_env call_mock_key (storage fresh) = (Inr None, Map.empty)"
    by (simp add: dict_env_def fresh_def)
  have f: "body ?f [] [] (outside fresh) = (Inr PNone, 1)"
    by (simp add: returning_def fresh_def)
  have d: "pickle_dumps dict_env PNone = Inr ?data"
    by (simp add: dict_env_def example_dumps_def)
  have t: "storage_set dict_env call_mock_key ?data (expires_in defaults) Map.empty
             = (Inr (), [call_mock_key \<mapsto> ?data])"
    by (simp add: dict_env_def)
  have g': "storage_get dict_env call_mock_key [call_mock_key \<mapsto> ?data]
              = (Inr (Some ?data), [call_mock_key \<mapsto> ?data])"
    by (simp add: dict_env_def)
  have l: "pickle_loads dict_env ?data = Inr PNone"
    by (simp add: dict_env_def example_loads_def)
  have x: "executions fresh = 0"
    by (simp add: executions_def fresh_def)
  have o: "outside (snd (wrapper dict_env defaults ?f ?fk AnyioLock [] []
             (snd (wrapper dict_env defaults ?f ?fk AnyioLock [] [] fresh)))) = 1"
    using wrapper_hit(5) [of "snd (wrapper dict_env defaults ?f ?fk AnyioLock [] [] fresh)"
        defaults dict_env ?fk ?f "[]" "[]" call_mock_key ?data "[call_mock_key \<mapsto> ?data]"
        AnyioLock]
      wrapper_miss_stores(4-6) [OF b k g f d t, of AnyioLock] k g'
    by simp
  from none_is_cached [OF b k g f d t g' l, where lock = AnyioLock and a = True] x o
  show ?thesis by (simp add: Let_def async_wrapper_eq)
qed

text \<open>
  C8. When an argument of the call, positional or keyword, has a runtime type that is
  neither natively hashable nor among the type encoders, the call raises
  \<^verbatim>\<open>UnhashableParamError\<close> with the name of such a parameter and its type. The wrapped
  function is not run, \<^verbatim>\<open>storage.set\<close> is not called, and the storage and the state the
  function works on are what they were. Both flavours.
\<close>

theorem unhashable_param_error:
  assumes "self_storage w \<or> factory self = Inr ()"
    and "v0 \<in> set args \<union> snd ` set kwargs"
    and "unhashable env (type_encoders self) v0"
  shows "\<forall>call \<in> {wrapper env self func fk lock,
                   async_wrapper env (async_of self a) func fk lock}.
           \<exists>n v. (n, v) \<in> set (arg_pairs func args kwargs)
             \<and> unhashable env (type_encoders self) v
             \<and> fst (call args kwargs w) = Inl (UnhashableParamError n (type_name v))
             \<and> executions (snd (call args kwargs w)) = executions w
             \<and> writes (snd (call args kwargs w)) = writes w
             \<and> storage (snd (call args kwargs w)) = storage w
             \<and> outside (snd (call args kwargs w)) = outside w"
proof -
  from make_value_key_unhashable [OF assms(2,3), of func fk] obtain n v where
    in_args: "(n, v) \<in> set (arg_pairs func args kwargs)"
    and un: "unhashable env (type_encoders self) v"
    and key: "make_value_key env fk func (type_encoders self) args kwargs
                = Inl (UnhashableParamError n (type_name v))"
    by blast
  note one = wrapper_key_fails [OF assms(1) key, of lock]
  let ?call = "wrapper env self func fk lock args kwargs w"
  have "(n, v) \<in> set (arg_pairs func args kwargs)
      \<and> unhashable env (type_encoders self) v
      \<and> fst ?call = Inl (UnhashableParamError n (type_name v))
      \<and> executions (snd ?call) = executions w
      \<and> writes (snd ?call) = writes w
      \<and> storage (snd ?call) = storage w
      \<and> outside (snd ?call) = outside w"
    using in_args un one by simp
  then have "\<exists>n v. (n, v) \<in> set (arg_pairs func args kwargs)
      \<and> unhashable env (type_encoders self) v
      \<and> fst ?call = Inl (UnhashableParamError n (type_name v))
      \<and> executions (snd ?call) = executions w
      \<and> writes (snd ?call) = writes w
      \<and> storage (snd ?call) = storage w
      \<and> outside (snd ?call) = outside w"
    by blast
  then show ?thesis
    by (simp add: async_wrapper_eq)
qed

theorem unhashable_param_error_witness:
  "fst (wrapper dict_env defaults call_fail (''tests.test_value'', ''call_fail'') NullLock
          [PObject ''HTTPConnection'' 0] [] fresh)
     = Inl (UnhashableParamError (Some ''conn'') ''HTTPConnection'')
   \<and> executions (snd (wrapper dict_env defaults call_fail (''tests.test_value'', ''call_fail'')
          NullLock [PObject ''HTTPConnection'' 0] [] fresh)) = 0
   \<and> storage (snd (wrapper dict_env defaults call_fail (''tests.test_value'', ''call_fail'')
          NullLock [PObject ''HTTPConnection'' 0] [] fresh)) = Map.empty"
proof -
  let ?fk = "(''tests.test_value'', ''call_fail'')"
  let ?conn = "PObject ''HTTPConnection'' 0"
  have b: "self_storage fresh \<or> factory defaults = Inr ()"
    by (simp add: defaults_def)
  have m: "?conn \<in> set [?conn] \<union> snd ` set []"
    by simp
  have u: "unhashable dict_env (type_encoders defaults) ?conn"
    by (simp add: unhashable_def dict_env_def defaults_def)
  have p: "arg_pairs call_fail [?conn] [] = [(Some ''conn'', ?conn)]"
    by (simp add: arg_pairs_def positional_name_def call_fail_def)
  have x: "executions fresh = 0" "storage fresh = Map.empty"
    by (simp_all add: executions_def fresh_def)
  from unhashable_param_error [OF b m u, where lock = NullLock and a = True and func = call_fail
      and fk = ?fk] p x
  show ?thesis by simp
qed

text \<open>
  C9. \<^verbatim>\<open>cache_value\<close> applied to a coroutine function raises \<^verbatim>\<open>TypeError\<close>, and so does
  \<^verbatim>\<open>async_cache_value\<close> applied to a function that is not one: the error of the same
  class, raised by the decoration, which touches no state. A function of the right
  flavour is decorated, and the wrapper that the decoration returns does not look at the
  flavour again: its calls are the same whatever \<^verbatim>\<open>inspect.iscoroutinefunction\<close> would
  say.
\<close>

theorem flavour_checked_at_decoration:
  "(iscoroutinefunction func
      \<longrightarrow> (\<exists>msg. cache_value_call env self func = Inl (TypeError msg)))
   \<and> (\<not> iscoroutinefunction func
      \<longrightarrow> (\<exists>msg. async_cache_value_call env aself func = Inl (TypeError msg)))
   \<and> (\<not> iscoroutinefunction func
      \<longrightarrow> cache_value_call env self func
            = Inr (wrapper env self func (make_function_key func)
                     (if serialize self then ThreadingLock else NullLock)))
   \<and> (iscoroutinefunction func
      \<longrightarrow> async_cache_value_call env aself func
            = Inr (async_wrapper env aself func (make_function_key func)
                     (if serialize aself then AnyioLock else NullLock)))
   \<and> wrapper env self (func\<lparr>iscoroutinefunction := b\<rparr>) fk lock args kwargs w
       = wrapper env self func fk lock args kwargs w
   \<and> async_wrapper env aself (func\<lparr>iscoroutinefunction := b\<rparr>) fk lock args kwargs w
       = async_wrapper env aself func fk lock args kwargs w"
  by (simp add: cache_value_call_def async_cache_value_call_def wrapper_flavour
      async_wrapper_flavour)

theorem flavour_checked_at_decoration_witness:
  "(\<exists>msg. cache_value_call dict_env defaults ((returning PNone)\<lparr>iscoroutinefunction := True\<rparr>)
            = Inl (TypeError msg))
   \<and> (\<exists>msg. async_cache_value_call dict_env (async_of defaults False) (returning PNone)
            = Inl (TypeError msg))
   \<and> cache_value_call dict_env defaults (returning PNone)
       = Inr (wrapper dict_env defaults (returning PNone) (''tests.test_value'', ''call_mock'')
                NullLock)
   \<and> async_cache_value_call dict_env (async_of defaults False)
         ((returning PNone)\<lparr>iscoroutinefunction := True\<rparr>)
       = Inr (async_wrapper dict_env (async_of defaults False)
                ((returning PNone)\<lparr>iscoroutinefunction := True\<rparr>)
                (''tests.test_value'', ''call_mock'') NullLock)"
proof -
  let ?sync = "returning PNone"
  let ?coro = "(returning PNone)\<lparr>iscoroutinefunction := True\<rparr>"
  have c: "iscoroutinefunction ?coro" "\<not> iscoroutinefunction ?sync"
    by (simp_all add: returning_def)
  have k: "make_function_key ?sync = (''tests.test_value'', ''call_mock'')"
    "make_function_key ?coro = (''tests.test_value'', ''call_mock'')"
    by (simp_all add: make_function_key_def returning_def)
  have s: "\<not> serialize defaults"
    by (simp add: defaults_def)
  from flavour_checked_at_decoration [of ?coro dict_env defaults "async_of defaults False"]
    flavour_checked_at_decoration [of ?sync dict_env defaults "async_of defaults False"]
    c k s
  show ?thesis by simp
qed

end
